theory Spec2Isabelle
  imports Main "HOL-Library.Word" "HOL-Library.Monad_Syntax"
begin

section \<open>SUMO\_Analyse: decoding an RC sum signal (PPM) on an Arduino Uno\<close>

text \<open>
  The sketch \<^verbatim>\<open>SUMO_Analyse.ino\<close> has two entry points that share three globals:
  the interrupt service routine \<^verbatim>\<open>read_ppm\<close>, run at every rising edge of the input
  pin, and \<^verbatim>\<open>loop\<close>, run over and over by the Arduino runtime. Interrupts are enabled
  while \<^verbatim>\<open>loop\<close> runs, so \<^verbatim>\<open>read_ppm\<close> is served between its statements. The target is the
  Arduino Uno (ATmega328P, 16 MHz): \<^verbatim>\<open>int\<close> is a 16-bit two's complement integer,
  \<^verbatim>\<open>unsigned int\<close> a 16-bit unsigned integer, and \<^verbatim>\<open>TCNT1\<close> a 16-bit counter
  register that the hardware increments every half microsecond.
\<close>

subsection \<open>Data\<close>

text \<open>
  Both integer types are 16-bit words. An \<^verbatim>\<open>unsigned int\<close> is read with \<open>unat\<close> and
  compared with \<open><\<close>; an \<^verbatim>\<open>int\<close> is read with \<open>sint\<close> (two's complement) and
  compared through it.
\<close>

type_synonym uint16 = "16 word"
type_synonym int16 = "16 word"

text \<open>
  What the sketch hands to \<^verbatim>\<open>Serial\<close>, one item per call: \<^verbatim>\<open>print(int)\<close>,
  \<^verbatim>\<open>print(const char *)\<close>, \<^verbatim>\<open>print(unsigned int)\<close> and
  \<^verbatim>\<open>println(unsigned int)\<close>, which ends the line.
\<close>

datatype serial_item =
    PrintInt int16
  | PrintStr string
  | PrintUInt uint16
  | PrintlnUInt uint16

text \<open>
  Where the main program stands: the statement of \<^verbatim>\<open>loop\<close> that runs next, named by
  its line. The \<^verbatim>\<open>for\<close> statement of line 32 has three parts, each a step of its own.
\<close>

datatype loc =
    Line29 | Line30
  | Line32_init | Line32_test | Line33 | Line34 | Line35 | Line36 | Line37 | Line32_incr
  | Line39 | Line40 | Line41 | Line42 | Line43 | Line44 | Line45

text \<open>
  The globals of the sketch (lines 19 to 21), the counter register of timer 1, the text
  sent to the serial port so far, and the main program's own state: its position \<open>pc\<close>
  and the locals \<^verbatim>\<open>total\<close> and \<^verbatim>\<open>i\<close> of \<^verbatim>\<open>loop\<close>. The array \<^verbatim>\<open>channel\<close> is
  declared with 9 elements; it is a list here, and every access goes through \<open>rd\<close> or
  \<open>wr\<close> below, which check the index against the declared size. The loop variable
  \<^verbatim>\<open>i\<close> only takes the values 0 to 8, so it is a natural number.
\<close>

record sketch =
  channel :: "uint16 list"
  readyToShow :: bool
  currentChannel :: int16
  TCNT1 :: uint16
  serial :: "serial_item list"
  pc :: loc
  loop_total :: uint16
  loop_i :: nat

text \<open>
  An access outside \<^verbatim>\<open>channel[0..8]\<close> is undefined behaviour in C++ (on the AVR it
  reads or overwrites whatever lies at that address). The model stops there: the result
  is \<open>None\<close>. The index is the value of the C expression, a signed integer.
\<close>

definition rd :: "uint16 list \<Rightarrow> int \<Rightarrow> uint16 option" where
  "rd a i = (if 0 \<le> i \<and> i < 9 then Some (a ! nat i) else None)"

definition wr :: "uint16 list \<Rightarrow> int \<Rightarrow> uint16 \<Rightarrow> uint16 list option" where
  "wr a i v = (if 0 \<le> i \<and> i < 9 then Some (a[nat i := v]) else None)"

text \<open>
  The state after reset: zeroed globals with their initialisers, nothing printed, the main
  program about to call \<^verbatim>\<open>loop\<close> for the first time.
\<close>

definition init :: sketch where
  "init = \<lparr>channel = [0, 0, 0, 0, 0, 0, 0, 0, 0], readyToShow = False, currentChannel = - 1,
           TCNT1 = 0, serial = [], pc = Line29, loop_total = 0, loop_i = 0\<rparr>"

subsection \<open>The interrupt service routine\<close>

text \<open>
  \<^verbatim>\<open>read_ppm\<close>, lines 60 to 84. The local \<^verbatim>\<open>pauseDuration\<close> is declared static, but
  it is assigned before it is read in every call, so it carries nothing from one call to
  the next and is a \<open>let\<close> here. \<^verbatim>\<open>pauseDuration > 2500\<close> compares unsigned values
  (\<open><\<close> on words); \<^verbatim>\<open>currentChannel < 8\<close> compares signed ones (\<open>sint\<close>).
  \<^verbatim>\<open>currentChannel++\<close> is \<open>+ 1\<close> on a 16-bit word: from 32767 it goes to -32768, as
  the AVR's addition does.
\<close>

definition read_ppm :: "sketch \<Rightarrow> sketch option" where
  "read_ppm s0 =
    (let pauseDuration = TCNT1 s0;
         s = s0\<lparr>TCNT1 := 0\<rparr>;
         pauseDuration = drop_bit 1 pauseDuration
     in
       if \<not> readyToShow s then
         if pauseDuration > 2500 then
           do {
             s \<leftarrow> (if currentChannel s \<noteq> - 1 then
                    do {
                      a \<leftarrow> wr (channel s) 8 pauseDuration;
                      Some (s\<lparr>channel := a, readyToShow := True\<rparr>)
                    }
                  else Some s);
             Some (s\<lparr>currentChannel := 0\<rparr>)
           }
         else
           if currentChannel s \<noteq> - 1 then
             do {
               s \<leftarrow> (if sint (currentChannel s) < 8 then
                      do {
                        a \<leftarrow> wr (channel s) (sint (currentChannel s)) pauseDuration;
                        Some (s\<lparr>channel := a\<rparr>)
                      }
                    else Some s);
               Some (s\<lparr>currentChannel := currentChannel s + 1\<rparr>)
             }
           else Some s
       else Some s)"

subsection \<open>The main loop\<close>

text \<open>
  \<^verbatim>\<open>loop\<close>, lines 28 to 47, one statement per step: \<open>loop_step\<close> runs the statement
  at \<open>pc\<close> and moves \<open>pc\<close> to the statement that follows. Between two steps the
  interrupt routine may be served any number of times (see the runs below), as on the
  board; a statement itself is one step. When the test of line 30 fails, \<^verbatim>\<open>loop\<close>
  returns and the runtime calls it again, so the program is back at line 29.
  \<^verbatim>\<open>delay(2000)\<close> in line 45 changes none of the globals; the edges that arrive while
  it waits are served before its step.
\<close>

definition loop_step :: "sketch \<Rightarrow> sketch option" where
  "loop_step s =
     (case pc s of
        Line29 \<Rightarrow>
          do { v \<leftarrow> rd (channel s) 8; Some (s\<lparr>loop_total := v, pc := Line30\<rparr>) }
      | Line30 \<Rightarrow>
          Some (if readyToShow s then s\<lparr>pc := Line32_init\<rparr> else s\<lparr>pc := Line29\<rparr>)
      | Line32_init \<Rightarrow>
          Some (s\<lparr>loop_i := 0, pc := Line32_test\<rparr>)
      | Line32_test \<Rightarrow>
          Some (if loop_i s < 8 then s\<lparr>pc := Line33\<rparr> else s\<lparr>pc := Line39\<rparr>)
      | Line33 \<Rightarrow>
          Some (s\<lparr>serial := serial s @ [PrintInt (of_nat (loop_i s) + 1)], pc := Line34\<rparr>)
      | Line34 \<Rightarrow>
          Some (s\<lparr>serial := serial s @ [PrintStr '': ''], pc := Line35\<rparr>)
      | Line35 \<Rightarrow>
          do { v \<leftarrow> rd (channel s) (int (loop_i s));
               Some (s\<lparr>serial := serial s @ [PrintUInt v], pc := Line36\<rparr>) }
      | Line36 \<Rightarrow>
          Some (s\<lparr>serial := serial s @ [PrintStr ''; ''], pc := Line37\<rparr>)
      | Line37 \<Rightarrow>
          do { v \<leftarrow> rd (channel s) (int (loop_i s));
               Some (s\<lparr>loop_total := loop_total s + v, pc := Line32_incr\<rparr>) }
      | Line32_incr \<Rightarrow>
          Some (s\<lparr>loop_i := loop_i s + 1, pc := Line32_test\<rparr>)
      | Line39 \<Rightarrow>
          Some (s\<lparr>serial := serial s @ [PrintStr ''Pause: ''], pc := Line40\<rparr>)
      | Line40 \<Rightarrow>
          do { v \<leftarrow> rd (channel s) 8;
               Some (s\<lparr>serial := serial s @ [PrintUInt v], pc := Line41\<rparr>) }
      | Line41 \<Rightarrow>
          Some (s\<lparr>serial := serial s @ [PrintStr ''; Total = ''], pc := Line42\<rparr>)
      | Line42 \<Rightarrow>
          Some (s\<lparr>serial := serial s @ [PrintlnUInt (loop_total s)], pc := Line43\<rparr>)
      | Line43 \<Rightarrow>
          Some (s\<lparr>readyToShow := False, pc := Line44\<rparr>)
      | Line44 \<Rightarrow>
          Some (s\<lparr>currentChannel := - 1, pc := Line45\<rparr>)
      | Line45 \<Rightarrow>
          Some (s\<lparr>pc := Line29\<rparr>))"

subsection \<open>Runs\<close>

text \<open>
  The hardware has counted \<open>t\<close> half microseconds since the last edge when the next
  rising edge arrives and the interrupt runs \<^verbatim>\<open>read_ppm\<close>. The interval measured is
  \<open>drop_bit 1 t\<close> microseconds.
\<close>

definition edge :: "uint16 \<Rightarrow> sketch \<Rightarrow> sketch option" where
  "edge t s = read_ppm (s\<lparr>TCNT1 := t\<rparr>)"

text \<open>
  An execution of the sketch is a sequence of events: a rising edge served by the
  interrupt routine, or the next statement of the main program. Every interleaving of the
  two is such a sequence.
\<close>

datatype event = Edge uint16 | Main

fun step :: "event \<Rightarrow> sketch \<Rightarrow> sketch option" where
  "step (Edge t) s = edge t s"
| "step Main s = loop_step s"

fun run :: "event list \<Rightarrow> sketch \<Rightarrow> sketch option" where
  "run [] s = Some s"
| "run (e # es) s = (case step e s of None \<Rightarrow> None | Some s' \<Rightarrow> run es s')"

text \<open>The state after each event of a run, in order; a run ends at the first fault.\<close>

fun trace :: "event list \<Rightarrow> sketch \<Rightarrow> sketch option list" where
  "trace [] s = []"
| "trace (e # es) s =
     (case step e s of None \<Rightarrow> [None] | Some s' \<Rightarrow> Some s' # trace es s')"



section \<open>Properties\<close>

subsection \<open>Evaluation at numerals\<close>

lemma list_update_Cons_numeral [simp]:
  "(x # xs)[numeral v := y] = x # xs[numeral v - 1 := y]"
  by (simp add: numeral_eq_Suc)

lemma sint_neq_minus_1: "c \<noteq> (- 1 :: 16 word) \<Longrightarrow> sint c \<noteq> - 1"
proof
  assume a: "c \<noteq> - 1" and b: "sint c = - 1"
  have "sint c = sint (- 1 :: 16 word)" using b by simp
  then have "c = - 1" by (rule signed_word_eqI)
  with a show False by simp
qed

subsection \<open>Single steps of the decoder\<close>

lemma edge_ready:
  "readyToShow s \<Longrightarrow> edge t s = Some (s\<lparr>TCNT1 := 0\<rparr>)"
  by (simp add: edge_def read_ppm_def)

lemma edge_sync_unsynchronized:
  "\<not> readyToShow s \<Longrightarrow> currentChannel s = - 1 \<Longrightarrow> 2500 < drop_bit 1 t \<Longrightarrow>
   edge t s = Some (s\<lparr>TCNT1 := 0, currentChannel := 0\<rparr>)"
  by (simp add: edge_def read_ppm_def)

lemma edge_sync_in_frame:
  "\<not> readyToShow s \<Longrightarrow> currentChannel s \<noteq> - 1 \<Longrightarrow> 2500 < drop_bit 1 t \<Longrightarrow>
   edge t s = Some (s\<lparr>TCNT1 := 0, channel := (channel s)[8 := drop_bit 1 t],
                      readyToShow := True, currentChannel := 0\<rparr>)"
  by (simp add: edge_def read_ppm_def wr_def)

lemma edge_pulse_unsynchronized:
  "\<not> readyToShow s \<Longrightarrow> currentChannel s = - 1 \<Longrightarrow> drop_bit 1 t \<le> 2500 \<Longrightarrow>
   edge t s = Some (s\<lparr>TCNT1 := 0\<rparr>)"
  by (simp add: edge_def read_ppm_def Let_def not_less [symmetric])

lemma edge_pulse_store:
  "\<not> readyToShow s \<Longrightarrow> 0 \<le> sint (currentChannel s) \<Longrightarrow> sint (currentChannel s) < 8 \<Longrightarrow>
   drop_bit 1 t \<le> 2500 \<Longrightarrow>
   edge t s = Some (s\<lparr>TCNT1 := 0,
                      channel := (channel s)[nat (sint (currentChannel s)) := drop_bit 1 t],
                      currentChannel := currentChannel s + 1\<rparr>)"
  by (auto simp add: edge_def read_ppm_def wr_def Let_def not_less [symmetric])

lemma edge_pulse_skip:
  "\<not> readyToShow s \<Longrightarrow> 8 \<le> sint (currentChannel s) \<Longrightarrow> drop_bit 1 t \<le> 2500 \<Longrightarrow>
   edge t s = Some (s\<lparr>TCNT1 := 0, currentChannel := currentChannel s + 1\<rparr>)"
  by (auto simp add: edge_def read_ppm_def wr_def Let_def not_less [symmetric])

lemma edge_pulse_fault:
  "\<not> readyToShow s \<Longrightarrow> sint (currentChannel s) < - 1 \<Longrightarrow> drop_bit 1 t \<le> 2500 \<Longrightarrow>
   edge t s = None"
  by (auto simp add: edge_def read_ppm_def wr_def Let_def not_less [symmetric])

subsection \<open>The report\<close>

text \<open>
  From the test of line 30 to the end of line 42, with no edge served in between: 63
  steps of the main program.
\<close>

lemma report_from_line30:
  "pc s = Line30 \<Longrightarrow> readyToShow s \<Longrightarrow>
   run (replicate 63 Main) s =
     Some (s\<lparr>serial := serial s @
       concat (map (\<lambda>i. [PrintInt (of_nat i + 1), PrintStr '': '', PrintUInt (channel s ! i),
                          PrintStr ''; '']) [0..<8]) @
       [PrintStr ''Pause: '', PrintUInt (channel s ! 8), PrintStr ''; Total = '',
        PrintlnUInt (loop_total s + channel s ! 0 + channel s ! 1 + channel s ! 2
                      + channel s ! 3 + channel s ! 4 + channel s ! 5 + channel s ! 6
                      + channel s ! 7)],
       pc := Line43,
       loop_total := loop_total s + channel s ! 0 + channel s ! 1 + channel s ! 2
                      + channel s ! 3 + channel s ! 4 + channel s ! 5 + channel s ! 6
                      + channel s ! 7,
       loop_i := 8\<rparr>)"
  by (simp add: loop_step_def rd_def upt_rec eval_nat_numeral)

text \<open>The same from line 29, where \<^verbatim>\<open>total\<close> starts as entry 8: 64 steps.\<close>

lemma report_uninterrupted:
  "pc s = Line29 \<Longrightarrow> readyToShow s \<Longrightarrow>
   run (replicate 64 Main) s =
     Some (s\<lparr>serial := serial s @
       concat (map (\<lambda>i. [PrintInt (of_nat i + 1), PrintStr '': '', PrintUInt (channel s ! i),
                          PrintStr ''; '']) [0..<8]) @
       [PrintStr ''Pause: '', PrintUInt (channel s ! 8), PrintStr ''; Total = '',
        PrintlnUInt (channel s ! 8 + channel s ! 0 + channel s ! 1 + channel s ! 2
                      + channel s ! 3 + channel s ! 4 + channel s ! 5 + channel s ! 6
                      + channel s ! 7)],
       pc := Line43,
       loop_total := channel s ! 8 + channel s ! 0 + channel s ! 1 + channel s ! 2
                      + channel s ! 3 + channel s ! 4 + channel s ! 5 + channel s ! 6
                      + channel s ! 7,
       loop_i := 8\<rparr>)"
proof -
  assume a: "pc s = Line29" "readyToShow s"
  let ?s1 = "s\<lparr>loop_total := channel s ! 8, pc := Line30\<rparr>"
  have "(64::nat) = Suc 63" by simp
  then have "replicate 64 Main = Main # replicate 63 Main"
    by (simp only: replicate_Suc)
  moreover have "loop_step s = Some ?s1"
    using a by (simp add: loop_step_def rd_def)
  moreover have "pc ?s1 = Line30" "readyToShow ?s1"
    using a by simp_all
  ultimately show ?thesis
    using report_from_line30 [of ?s1] by simp
qed

text \<open>
  Without an edge in between, lines 43 and 44 then clear the Ready Flag and reset the
  index, and the Channel Buffer is as it was.
\<close>

lemma release_uninterrupted:
  "pc s = Line43 \<Longrightarrow>
   run [Main, Main] s = Some (s\<lparr>readyToShow := False, currentChannel := - 1, pc := Line45\<rparr>)"
  by (simp add: loop_step_def)

lemma unat_total:
  "unat ((a8 :: 16 word) + a0 + a1 + a2 + a3 + a4 + a5 + a6 + a7) =
   (unat a0 + unat a1 + unat a2 + unat a3 + unat a4 + unat a5 + unat a6 + unat a7 + unat a8)
     mod 2 ^ 16"
  apply (simp add: unat_word_ariths mod_simps)
  apply (simp add: ac_simps)
  done

lemma sum_below_9:
  "(\<Sum>i<9. f i) = (f 0 + f 1 + f 2 + f 3 + f 4 + f 5 + f 6 + f 7 + f (8::nat) :: nat)"
  by (simp add: eval_nat_numeral)

text \<open>
  When the Ready Flag is already set at line 29 and no edge is served up to line 42, the
  total printed is the sum of the nine entries modulo \<open>2 ^ 16\<close>.
\<close>

lemma report_total_uninterrupted:
  assumes "pc s = Line29" and "readyToShow s"
  shows "\<exists>s' tot. run (replicate 64 Main) s = Some s' \<and> last (serial s') = PrintlnUInt tot
           \<and> unat tot = (\<Sum>i<9. unat (channel s ! i)) mod 2 ^ 16"
proof -
  let ?a = "channel s"
  let ?tot = "?a ! 8 + ?a ! 0 + ?a ! 1 + ?a ! 2 + ?a ! 3 + ?a ! 4 + ?a ! 5 + ?a ! 6 + ?a ! 7"
  have "unat ?tot = (\<Sum>i<9. unat (?a ! i)) mod 2 ^ 16"
    unfolding sum_below_9 by (rule unat_total)
  then show ?thesis
    using report_uninterrupted [OF assms] by simp
qed

subsection \<open>Runs of edges\<close>

lemma sint_of_nat_small: "k < 9 \<Longrightarrow> sint (of_nat k :: 16 word) = int k"
  by (simp add: signed_of_nat signed_take_bit_int_eq_self)

lemma sint_Suc: "sint (c :: 16 word) < 32767 \<Longrightarrow> sint (c + 1) = sint c + 1"
proof -
  assume a: "sint c < 32767"
  have "- (2 ^ 15) \<le> sint c" using sint_ge [of c] by simp
  then show ?thesis using a
    by (simp add: sint_word_ariths signed_take_bit_int_eq_self)
qed

lemma length_one: "length xs = 1 \<Longrightarrow> \<exists>x. xs = [x]"
  by (cases xs) auto

lemma run_append:
  "run (xs @ ys) s = (case run xs s of None \<Rightarrow> None | Some s' \<Rightarrow> run ys s')"
  by (induction xs arbitrary: s) (auto split: option.splits)

lemma trace_append:
  "trace (xs @ ys) s =
     (case run xs s of None \<Rightarrow> trace xs s | Some s' \<Rightarrow> trace xs s @ trace ys s')"
  by (induction xs arbitrary: s) (auto split: option.splits)

lemma run_pulses:
  "\<not> readyToShow s \<Longrightarrow> currentChannel s = of_nat k \<Longrightarrow> k + length ts \<le> 8 \<Longrightarrow>
   \<forall>t\<in>set ts. drop_bit 1 t \<le> 2500 \<Longrightarrow> length (channel s) = 9 \<Longrightarrow>
   run (map Edge ts) s =
     Some (s\<lparr>TCNT1 := (if ts = [] then TCNT1 s else 0),
             channel := take k (channel s) @ map (drop_bit 1) ts
                          @ drop (k + length ts) (channel s),
             currentChannel := of_nat (k + length ts)\<rparr>)"
proof (induction ts arbitrary: s k)
  case Nil
  then show ?case by simp
next
  case (Cons t ts)
  let ?s1 = "s\<lparr>TCNT1 := 0, channel := (channel s)[k := drop_bit 1 t],
               currentChannel := of_nat (Suc k)\<rparr>"
  from Cons.prems have k: "k < 8" by simp
  then have sk: "sint (currentChannel s) = int k"
    using Cons.prems(2) by (simp add: sint_of_nat_small)
  have e: "edge t s = Some ?s1"
    using Cons.prems k sk by (simp add: edge_pulse_store)
  have "run (map Edge ts) ?s1 =
     Some (?s1\<lparr>TCNT1 := (if ts = [] then TCNT1 ?s1 else 0),
             channel := take (Suc k) (channel ?s1) @ map (drop_bit 1) ts
                          @ drop (Suc k + length ts) (channel ?s1),
             currentChannel := of_nat (Suc k + length ts)\<rparr>)"
    using Cons.prems by (intro Cons.IH) simp_all
  moreover have "take (Suc k) ((channel s)[k := drop_bit 1 t]) = take k (channel s) @ [drop_bit 1 t]"
    using Cons.prems(5) k by (simp add: take_Suc_conv_app_nth)
  ultimately show ?case using e by simp
qed

lemma trace_pulses:
  "\<not> readyToShow s \<Longrightarrow> currentChannel s = of_nat k \<Longrightarrow> k + length ts \<le> 8 \<Longrightarrow>
   \<forall>t\<in>set ts. drop_bit 1 t \<le> 2500 \<Longrightarrow>
   map (map_option readyToShow) (trace (map Edge ts) s) = replicate (length ts) (Some False)"
proof (induction ts arbitrary: s k)
  case Nil
  then show ?case by simp
next
  case (Cons t ts)
  let ?s1 = "s\<lparr>TCNT1 := 0, channel := (channel s)[k := drop_bit 1 t],
               currentChannel := of_nat (Suc k)\<rparr>"
  from Cons.prems have k: "k < 8" by simp
  then have sk: "sint (currentChannel s) = int k"
    using Cons.prems(2) by (simp add: sint_of_nat_small)
  have e: "edge t s = Some ?s1"
    using Cons.prems k sk by (simp add: edge_pulse_store)
  have "map (map_option readyToShow) (trace (map Edge ts) ?s1) = replicate (length ts) (Some False)"
    using Cons.prems by (intro Cons.IH [where k = "Suc k"]) simp_all
  then show ?case using e Cons.prems(1) by simp
qed

lemma run_frame:
  assumes "\<not> readyToShow s" and "currentChannel s = 0" and "length (channel s) = 9"
    and "length ts = 8" and "\<forall>t\<in>set ts. drop_bit 1 t \<le> 2500" and "2500 < drop_bit 1 g"
  shows "run (map Edge (ts @ [g])) s =
           Some (s\<lparr>TCNT1 := 0, channel := map (drop_bit 1) ts @ [drop_bit 1 g],
                   readyToShow := True, currentChannel := 0\<rparr>)"
    and "map (map_option readyToShow) (trace (map Edge (ts @ [g])) s) =
           replicate 8 (Some False) @ [Some True]"
proof -
  let ?s8 = "s\<lparr>TCNT1 := 0, channel := map (drop_bit 1) ts @ drop 8 (channel s),
               currentChannel := 8\<rparr>"
  have ne: "ts \<noteq> []" using assms(4) by auto
  have p: "run (map Edge ts) s = Some ?s8"
    using run_pulses [of s 0 ts] assms ne by simp
  have g: "edge g ?s8 =
           Some (s\<lparr>TCNT1 := 0, channel := map (drop_bit 1) ts @ [drop_bit 1 g],
                   readyToShow := True, currentChannel := 0\<rparr>)"
  proof -
    have "length (drop 8 (channel s)) = 1" using assms(3) by simp
    then obtain x where "drop 8 (channel s) = [x]"
      using length_one [of "drop 8 (channel s)"] by auto
    then show ?thesis
      using assms by (simp add: edge_sync_in_frame list_update_append)
  qed
  show "run (map Edge (ts @ [g])) s =
           Some (s\<lparr>TCNT1 := 0, channel := map (drop_bit 1) ts @ [drop_bit 1 g],
                   readyToShow := True, currentChannel := 0\<rparr>)"
    using p g by (simp add: run_append)
  have "map (map_option readyToShow) (trace (map Edge ts) s) = replicate 8 (Some False)"
    using trace_pulses [of s 0 ts] assms by simp
  then show "map (map_option readyToShow) (trace (map Edge (ts @ [g])) s) =
           replicate 8 (Some False) @ [Some True]"
    using p g by (simp add: trace_append)
qed

lemma run_skip:
  "\<not> readyToShow s \<Longrightarrow> 8 \<le> sint (currentChannel s) \<Longrightarrow>
   sint (currentChannel s) + int n \<le> 32767 \<Longrightarrow> drop_bit 1 t \<le> 2500 \<Longrightarrow>
   run (replicate n (Edge t)) s =
     Some (s\<lparr>TCNT1 := (if n = 0 then TCNT1 s else 0),
             currentChannel := currentChannel s + of_nat n\<rparr>)"
proof (induction n arbitrary: s)
  case 0
  then show ?case by simp
next
  case (Suc n)
  let ?s1 = "s\<lparr>TCNT1 := 0, currentChannel := currentChannel s + 1\<rparr>"
  have e: "edge t s = Some ?s1"
    using Suc.prems by (simp add: edge_pulse_skip)
  have c: "sint (currentChannel s + 1) = sint (currentChannel s) + 1"
    using Suc.prems by (intro sint_Suc) simp
  have "run (replicate n (Edge t)) ?s1 =
     Some (?s1\<lparr>TCNT1 := (if n = 0 then TCNT1 ?s1 else 0),
             currentChannel := currentChannel ?s1 + of_nat n\<rparr>)"
    using Suc.prems c by (intro Suc.IH) simp_all
  then show ?case using e by (simp add: add.assoc)
qed

subsection \<open>The index along a run\<close>





section \<open>The claims\<close>

text \<open>
  C1. Start in InFrame(0) with the Ready Flag clear and a Channel Buffer of 9 entries.
  Eight edges that each follow the previous one after 1000 to 2000 microseconds, then one
  edge after more than 2500 microseconds, are processed without a fault; the Ready Flag
  is clear after each of the first eight edges and set after the ninth, so it is set
  exactly once; and the Channel Buffer then holds the eight measured intervals in order,
  followed by the measured gap in entry 8.
\<close>

theorem C1_well_formed_frame:
  "currentChannel s = 0 \<Longrightarrow> \<not> readyToShow s \<Longrightarrow> length (channel s) = 9 \<Longrightarrow>
   length ts = 8 \<Longrightarrow> \<forall>t\<in>set ts. 1000 \<le> drop_bit 1 t \<and> drop_bit 1 t \<le> 2000 \<Longrightarrow>
   2500 < drop_bit 1 g \<Longrightarrow>
   map (map_option readyToShow) (trace (map Edge (ts @ [g])) s)
     = replicate 8 (Some False) @ [Some True]
   \<and> (\<exists>s'. run (map Edge (ts @ [g])) s = Some s' \<and> readyToShow s'
         \<and> channel s' = map (drop_bit 1) ts @ [drop_bit 1 g])"
proof -
  assume a: "currentChannel s = 0" "\<not> readyToShow s" "length (channel s) = 9" "length ts = 8"
    "2500 < drop_bit 1 g"
  assume "\<forall>t\<in>set ts. 1000 \<le> drop_bit 1 t \<and> drop_bit 1 t \<le> 2000"
  then have p: "\<forall>t\<in>set ts. drop_bit 1 t \<le> 2500"
    by (auto simp add: word_le_nat_alt)
  from a p show ?thesis
    using run_frame(1) [of s ts g] run_frame(2) [of s ts g] by simp
qed

theorem C1_witness:
  "currentChannel (init\<lparr>currentChannel := 0\<rparr>) = 0 \<and> \<not> readyToShow (init\<lparr>currentChannel := 0\<rparr>)
   \<and> length (channel (init\<lparr>currentChannel := 0\<rparr>)) = 9
   \<and> length [2000, 2400, 2801, 3200, 3600, 4000, 3000, 2001 :: uint16] = 8
   \<and> 1000 \<le> drop_bit 1 (2000 :: uint16) \<and> drop_bit 1 (2000 :: uint16) \<le> 2000
   \<and> 1000 \<le> drop_bit 1 (2400 :: uint16) \<and> drop_bit 1 (2400 :: uint16) \<le> 2000
   \<and> 1000 \<le> drop_bit 1 (2801 :: uint16) \<and> drop_bit 1 (2801 :: uint16) \<le> 2000
   \<and> 1000 \<le> drop_bit 1 (3200 :: uint16) \<and> drop_bit 1 (3200 :: uint16) \<le> 2000
   \<and> 1000 \<le> drop_bit 1 (3600 :: uint16) \<and> drop_bit 1 (3600 :: uint16) \<le> 2000
   \<and> 1000 \<le> drop_bit 1 (4000 :: uint16) \<and> drop_bit 1 (4000 :: uint16) \<le> 2000
   \<and> 1000 \<le> drop_bit 1 (3000 :: uint16) \<and> drop_bit 1 (3000 :: uint16) \<le> 2000
   \<and> 1000 \<le> drop_bit 1 (2001 :: uint16) \<and> drop_bit 1 (2001 :: uint16) \<le> 2000
   \<and> 2500 < drop_bit 1 (9000 :: uint16)
   \<and> map (map_option readyToShow)
         (trace (map Edge ([2000, 2400, 2801, 3200, 3600, 4000, 3000, 2001] @ [9000]))
            (init\<lparr>currentChannel := 0\<rparr>))
       = replicate 8 (Some False) @ [Some True]
   \<and> (\<exists>s'. run (map Edge ([2000, 2400, 2801, 3200, 3600, 4000, 3000, 2001] @ [9000]))
               (init\<lparr>currentChannel := 0\<rparr>) = Some s'
         \<and> readyToShow s'
         \<and> channel s' = [1000, 1200, 1400, 1600, 1800, 2000, 1500, 1000, 4500])"
  using C1_well_formed_frame
    [of "init\<lparr>currentChannel := 0\<rparr>" "[2000, 2400, 2801, 3200, 3600, 4000, 3000, 2001]" 9000]
  by (simp add: init_def)

text \<open>
  C2. While the Ready Flag is set, a rising edge with any counter value (so any elapsed
  time) leaves the Channel Buffer, the Ready Flag and the Current Channel Index as they
  are, whatever they hold: the routine returns without a fault and only the counter
  register has been reset.
\<close>

theorem C2_edge_dropped_while_ready:
  "readyToShow s \<Longrightarrow>
   (\<exists>s'. edge t s = Some s' \<and> channel s' = channel s \<and> readyToShow s' = readyToShow s
      \<and> currentChannel s' = currentChannel s)"
  by (simp add: edge_ready)

theorem C2_witness:
  "readyToShow (init\<lparr>readyToShow := True, currentChannel := 3\<rparr>) \<and>
   (\<exists>s'. edge 3000 (init\<lparr>readyToShow := True, currentChannel := 3\<rparr>) = Some s'
      \<and> channel s' = channel (init\<lparr>readyToShow := True, currentChannel := 3\<rparr>)
      \<and> readyToShow s' = readyToShow (init\<lparr>readyToShow := True, currentChannel := 3\<rparr>)
      \<and> currentChannel s' = currentChannel (init\<lparr>readyToShow := True, currentChannel := 3\<rparr>))"
  using C2_edge_dropped_while_ready [of "init\<lparr>readyToShow := True, currentChannel := 3\<rparr>" 3000]
  by simp




text \<open>
  C4, as amended. In state InFrame(8) with the Ready Flag clear, an edge with an elapsed
  time of at most 2500 microseconds leaves the Channel Buffer and the Ready Flag as they
  are, and the Current Channel Index goes on to 9: line 80 counts the edge although line
  77 stores nothing for it.
\<close>

theorem C4_ninth_pulse_counted_not_stored:
  "currentChannel s = 8 \<Longrightarrow> \<not> readyToShow s \<Longrightarrow> drop_bit 1 t \<le> 2500 \<Longrightarrow>
   (\<exists>s'. edge t s = Some s' \<and> channel s' = channel s \<and> \<not> readyToShow s'
      \<and> currentChannel s' = 9)"
  by (simp add: edge_pulse_skip)

theorem C4_witness:
  "currentChannel (init\<lparr>currentChannel := 8\<rparr>) = 8 \<and> \<not> readyToShow (init\<lparr>currentChannel := 8\<rparr>)
   \<and> drop_bit 1 (3000 :: uint16) \<le> 2500
   \<and> (\<exists>s'. edge 3000 (init\<lparr>currentChannel := 8\<rparr>) = Some s'
         \<and> channel s' = channel (init\<lparr>currentChannel := 8\<rparr>) \<and> \<not> readyToShow s'
         \<and> currentChannel s' = 9)"
  using C4_ninth_pulse_counted_not_stored [of "init\<lparr>currentChannel := 8\<rparr>" 3000]
  by (simp add: init_def)

text \<open>
  The claim as the specification states it fails: from InFrame(8), with the Ready Flag
  clear, an edge after 1500 microseconds (3000 ticks) leaves the index at 9, not at 8.
\<close>

theorem C4_counterexample:
  "map_option currentChannel (edge 3000 (init\<lparr>currentChannel := 8\<rparr>)) = Some 9
   \<and> (9 :: int16) \<noteq> 8"
  by (simp add: edge_def read_ppm_def init_def Let_def)

text \<open>
  C5. With the Ready Flag clear, an edge after exactly 2500 microseconds (5000 or 5001
  ticks) is handled as a channel pulse in every state: nothing happens while
  unsynchronised; otherwise the edge is counted, and its value is stored if the index is
  0 to 7 (an index below -1 makes the store a fault). It is never handled as a sync gap,
  which would leave the index at 0 and, once synchronised, set the Ready Flag and write
  entry 8: the test in line 68 is a strict \<open>>\<close>.
\<close>

theorem C5_elapsed_2500_is_channel_pulse:
  "\<not> readyToShow s \<Longrightarrow> drop_bit 1 t = 2500 \<Longrightarrow>
   edge t s =
     (if currentChannel s = - 1 then Some (s\<lparr>TCNT1 := 0\<rparr>)
      else if 8 \<le> sint (currentChannel s) then
        Some (s\<lparr>TCNT1 := 0, currentChannel := currentChannel s + 1\<rparr>)
      else if 0 \<le> sint (currentChannel s) then
        Some (s\<lparr>TCNT1 := 0, channel := (channel s)[nat (sint (currentChannel s)) := 2500],
                currentChannel := currentChannel s + 1\<rparr>)
      else None)
   \<and> edge t s \<noteq>
     Some (if currentChannel s = - 1 then s\<lparr>TCNT1 := 0, currentChannel := 0\<rparr>
           else s\<lparr>TCNT1 := 0, channel := (channel s)[8 := 2500], readyToShow := True,
                  currentChannel := 0\<rparr>)"
proof -
  assume ready: "\<not> readyToShow s" and t: "drop_bit 1 t = 2500"
  from t have le: "drop_bit 1 t \<le> 2500" by simp
  let ?c = "currentChannel s"
  have pulse: "edge t s =
     (if ?c = - 1 then Some (s\<lparr>TCNT1 := 0\<rparr>)
      else if 8 \<le> sint ?c then Some (s\<lparr>TCNT1 := 0, currentChannel := ?c + 1\<rparr>)
      else if 0 \<le> sint ?c then
        Some (s\<lparr>TCNT1 := 0, channel := (channel s)[nat (sint ?c) := 2500],
                currentChannel := ?c + 1\<rparr>)
      else None)"
  proof (cases "?c = - 1")
    case True
    with ready le show ?thesis by (simp add: edge_pulse_unsynchronized)
  next
    case False
    then have ne: "sint ?c \<noteq> - 1"
      by (rule sint_neq_minus_1)
    consider "8 \<le> sint ?c" | "0 \<le> sint ?c" "sint ?c < 8" | "sint ?c < - 1"
      using ne by linarith
    then show ?thesis
    proof cases
      case 1
      with ready le False show ?thesis by (simp add: edge_pulse_skip)
    next
      case 2
      with ready le False show ?thesis using t by (simp add: edge_pulse_store)
    next
      case 3
      with ready le False show ?thesis by (simp add: edge_pulse_fault)
    qed
  qed
  have differs: "map_option currentChannel (edge t s) \<noteq> Some 0"
  proof (cases "?c = - 1")
    case True
    then show ?thesis by (simp add: pulse)
  next
    case False
    then have "?c + 1 \<noteq> 0" by (simp add: add_eq_0_iff2)
    with False show ?thesis by (simp add: pulse)
  qed
  have "edge t s \<noteq>
     Some (if ?c = - 1 then s\<lparr>TCNT1 := 0, currentChannel := 0\<rparr>
           else s\<lparr>TCNT1 := 0, channel := (channel s)[8 := 2500], readyToShow := True,
                  currentChannel := 0\<rparr>)"
  proof
    assume "edge t s =
     Some (if ?c = - 1 then s\<lparr>TCNT1 := 0, currentChannel := 0\<rparr>
           else s\<lparr>TCNT1 := 0, channel := (channel s)[8 := 2500], readyToShow := True,
                  currentChannel := 0\<rparr>)"
    then have "map_option currentChannel (edge t s) = Some 0" by simp
    with differs show False by simp
  qed
  with pulse show ?thesis by simp
qed

text \<open>One microsecond more is a sync gap.\<close>

lemma elapsed_2501_is_sync_gap:
  "\<not> readyToShow s \<Longrightarrow> drop_bit 1 t = 2501 \<Longrightarrow>
   edge t s =
     Some (if currentChannel s = - 1 then s\<lparr>TCNT1 := 0, currentChannel := 0\<rparr>
           else s\<lparr>TCNT1 := 0, channel := (channel s)[8 := 2501], readyToShow := True,
                  currentChannel := 0\<rparr>)"
  by (simp add: edge_sync_unsynchronized edge_sync_in_frame)

theorem C5_witness:
  "\<not> readyToShow (init\<lparr>currentChannel := 1\<rparr>) \<and> drop_bit 1 (5001 :: uint16) = 2500
   \<and> edge 5001 (init\<lparr>currentChannel := 1\<rparr>) =
       Some (init\<lparr>channel := [0, 2500, 0, 0, 0, 0, 0, 0, 0], currentChannel := 2\<rparr>)
   \<and> edge 5001 (init\<lparr>currentChannel := 1\<rparr>) \<noteq>
       Some (init\<lparr>channel := [0, 0, 0, 0, 0, 0, 0, 0, 2500], readyToShow := True,
                  currentChannel := 0\<rparr>)"
  using C5_elapsed_2500_is_channel_pulse [of "init\<lparr>currentChannel := 1\<rparr>" 5001]
  by (simp add: init_def)

text \<open>
  C6. In the Unsynchronized state (index -1) with the Ready Flag clear, an edge after more
  than 2500 microseconds moves the decoder to InFrame(0), leaves the Ready Flag clear and
  does not touch the Channel Buffer: the first gap only establishes synchronisation.
\<close>

theorem C6_first_sync_gap_only_synchronizes:
  "currentChannel s = - 1 \<Longrightarrow> \<not> readyToShow s \<Longrightarrow> 2500 < drop_bit 1 t \<Longrightarrow>
   (\<exists>s'. edge t s = Some s' \<and> currentChannel s' = 0 \<and> \<not> readyToShow s'
      \<and> channel s' = channel s)"
  by (simp add: edge_sync_unsynchronized)

theorem C6_witness:
  "currentChannel init = - 1 \<and> \<not> readyToShow init \<and> 2500 < drop_bit 1 (6000 :: uint16)
   \<and> (\<exists>s'. edge 6000 init = Some s' \<and> currentChannel s' = 0 \<and> \<not> readyToShow s'
         \<and> channel s' = channel init)"
  using C6_first_sync_gap_only_synchronizes [of init 6000]
  by (simp add: init_def)

text \<open>
  C7. From an Unsynchronized state with the Ready Flag clear, take ten edges whose
  measured intervals are 3000, eight times 1500, and 3000 microseconds. The Ready Flag is
  clear after each of the first nine edges (the first sync gap only synchronises) and set
  after the tenth. The Channel Buffer then holds 1500 in entries 0 to 7 and 3000 in
  entry 8, the nine entries add up to 15000, and the report that follows (lines 29 to 42
  of the main program, with no further edge in between) ends with the total 15000.
\<close>

theorem C7_end_to_end:
  "currentChannel s = - 1 \<Longrightarrow> \<not> readyToShow s \<Longrightarrow> length (channel s) = 9 \<Longrightarrow>
   map (drop_bit 1) ts = [3000, 1500, 1500, 1500, 1500, 1500, 1500, 1500, 1500, 3000] \<Longrightarrow>
   map (map_option readyToShow) (trace (map Edge ts) s)
     = replicate 9 (Some False) @ [Some True]
   \<and> (\<exists>s'. run (map Edge ts) s = Some s' \<and> readyToShow s'
         \<and> channel s' = [1500, 1500, 1500, 1500, 1500, 1500, 1500, 1500, 3000]
         \<and> sum_list (map unat (channel s')) = 15000
         \<and> (\<exists>s''. run (replicate 64 Main) (s'\<lparr>pc := Line29\<rparr>) = Some s''
                \<and> last (serial s'') = PrintlnUInt 15000))"
proof -
  assume a: "currentChannel s = - 1" "\<not> readyToShow s" "length (channel s) = 9"
  assume "map (drop_bit 1) ts = [3000, 1500, 1500, 1500, 1500, 1500, 1500, 1500, 1500, 3000]"
  then obtain t0 t1 t2 t3 t4 t5 t6 t7 t8 g where
    ts: "ts = t0 # ([t1, t2, t3, t4, t5, t6, t7, t8] @ [g])"
    and t0: "drop_bit 1 t0 = 3000" and g: "drop_bit 1 g = 3000"
    and p: "map (drop_bit 1) [t1, t2, t3, t4, t5, t6, t7, t8]
              = [1500, 1500, 1500, 1500, 1500, 1500, 1500, 1500]"
    by (auto simp add: map_eq_Cons_conv)
  let ?mid = "[t1, t2, t3, t4, t5, t6, t7, t8]"
  let ?s0 = "s\<lparr>TCNT1 := 0, currentChannel := 0\<rparr>"
  let ?s' = "s\<lparr>TCNT1 := 0, channel := [1500, 1500, 1500, 1500, 1500, 1500, 1500, 1500, 3000],
               readyToShow := True, currentChannel := 0\<rparr>"
  have e0: "edge t0 s = Some ?s0"
    using a t0 by (simp add: edge_sync_unsynchronized)
  have pulses: "\<forall>t\<in>set ?mid. drop_bit 1 t \<le> 2500"
    using p by simp
  have gap: "2500 < drop_bit 1 g" using g by simp
  have r: "run (map Edge (?mid @ [g])) ?s0 = Some ?s'"
    using run_frame(1) [of ?s0 ?mid g] a pulses gap p g by simp
  have tr: "map (map_option readyToShow) (trace (map Edge (?mid @ [g])) ?s0)
              = replicate 8 (Some False) @ [Some True]"
    using run_frame(2) [of ?s0 ?mid g] a pulses gap by simp
  have run: "run (map Edge ts) s = Some ?s'"
    unfolding ts using e0 r by simp
  have trace: "map (map_option readyToShow) (trace (map Edge ts) s)
                 = replicate 9 (Some False) @ [Some True]"
  proof -
    have "(9::nat) = Suc 8" by simp
    then have "replicate 9 (Some False) = Some False # replicate 8 (Some False)"
      by (simp only: replicate_Suc)
    then show ?thesis
      unfolding ts using e0 tr a by simp
  qed
  have total: "sum_list (map unat (channel ?s')) = 15000" by simp
  have report: "\<exists>s''. run (replicate 64 Main) (?s'\<lparr>pc := Line29\<rparr>) = Some s''
                  \<and> last (serial s'') = PrintlnUInt 15000"
    by (simp add: report_uninterrupted)
  from run trace total report show ?thesis by simp
qed

theorem C7_witness:
  "currentChannel init = - 1 \<and> \<not> readyToShow init \<and> length (channel init) = 9
   \<and> map (drop_bit 1) [6000, 3000, 3001, 3000, 3000, 3000, 3000, 3000, 3000, 6001 :: uint16]
       = [3000, 1500, 1500, 1500, 1500, 1500, 1500, 1500, 1500, 3000]
   \<and> map (map_option readyToShow)
        (trace (map Edge [6000, 3000, 3001, 3000, 3000, 3000, 3000, 3000, 3000, 6001]) init)
       = replicate 9 (Some False) @ [Some True]
   \<and> (\<exists>s'. run (map Edge [6000, 3000, 3001, 3000, 3000, 3000, 3000, 3000, 3000, 6001]) init
              = Some s' \<and> readyToShow s'
         \<and> channel s' = [1500, 1500, 1500, 1500, 1500, 1500, 1500, 1500, 3000]
         \<and> sum_list (map unat (channel s')) = 15000
         \<and> (\<exists>s''. run (replicate 64 Main) (s'\<lparr>pc := Line29\<rparr>) = Some s''
                \<and> last (serial s'') = PrintlnUInt 15000))"
  using C7_end_to_end
    [of init "[6000, 3000, 3001, 3000, 3000, 3000, 3000, 3000, 3000, 6001]"]
  by (simp add: init_def)

text \<open>
  C8. The claim says that the line printed for a frame ends with a total equal to the sum
  of all nine Channel Buffer entries, modulo \<open>2 ^ 16\<close>, and the comment of line 29 says
  the same of \<^verbatim>\<open>total\<close>. The sketch breaks it: line 29 reads entry 8 into \<^verbatim>\<open>total\<close>
  before line 30 tests the Ready Flag. When the edge that completes the frame is served
  between the two lines, the gap it writes to entry 8 is printed after \<^verbatim>\<open>"Pause: "\<close> but
  is missing from the total. From the state after reset: a sync gap, eight pulses of 1000
  microseconds, line 29, a sync gap of 10000 microseconds, then lines 30 to 42. The line
  printed shows eight times 1000 and the pause 10000, which add up to 18000, and the
  total 8000.
\<close>

theorem C8_total_read_before_flag_test:
  "map_option (\<lambda>s. (channel s, serial s))
     (run ([Edge 6000, Edge 2000, Edge 2000, Edge 2000, Edge 2000, Edge 2000, Edge 2000,
            Edge 2000, Edge 2000, Main, Edge 20000] @ replicate 63 Main) init)
   = Some ([1000, 1000, 1000, 1000, 1000, 1000, 1000, 1000, 10000],
           [PrintInt 1, PrintStr '': '', PrintUInt 1000, PrintStr ''; '',
            PrintInt 2, PrintStr '': '', PrintUInt 1000, PrintStr ''; '',
            PrintInt 3, PrintStr '': '', PrintUInt 1000, PrintStr ''; '',
            PrintInt 4, PrintStr '': '', PrintUInt 1000, PrintStr ''; '',
            PrintInt 5, PrintStr '': '', PrintUInt 1000, PrintStr ''; '',
            PrintInt 6, PrintStr '': '', PrintUInt 1000, PrintStr ''; '',
            PrintInt 7, PrintStr '': '', PrintUInt 1000, PrintStr ''; '',
            PrintInt 8, PrintStr '': '', PrintUInt 1000, PrintStr ''; '',
            PrintStr ''Pause: '', PrintUInt 10000, PrintStr ''; Total = '',
            PrintlnUInt 8000])
   \<and> sum_list (map unat [1000, 1000, 1000, 1000, 1000, 1000, 1000, 1000, 10000 :: uint16])
         mod 2 ^ 16 = 18000"
proof -
  let ?pre = "[Edge 6000, Edge 2000, Edge 2000, Edge 2000, Edge 2000, Edge 2000, Edge 2000,
               Edge 2000, Edge 2000, Main, Edge 20000]"
  let ?s = "init\<lparr>channel := [1000, 1000, 1000, 1000, 1000, 1000, 1000, 1000, 10000],
                 readyToShow := True, currentChannel := 0, pc := Line30\<rparr>"
  have pre: "run ?pre init = Some ?s"
    by (simp add: edge_def read_ppm_def loop_step_def rd_def wr_def init_def Let_def)
  have whole: "run (?pre @ replicate 63 Main) init = run (replicate 63 Main) ?s"
    using pre by (simp only: run_append option.case)
  have "pc ?s = Line30" "readyToShow ?s"
    by simp_all
  from report_from_line30 [OF this]
  have "map_option (\<lambda>s. (channel s, serial s)) (run (replicate 63 Main) ?s)
    = Some ([1000, 1000, 1000, 1000, 1000, 1000, 1000, 1000, 10000],
           [PrintInt 1, PrintStr '': '', PrintUInt 1000, PrintStr ''; '',
            PrintInt 2, PrintStr '': '', PrintUInt 1000, PrintStr ''; '',
            PrintInt 3, PrintStr '': '', PrintUInt 1000, PrintStr ''; '',
            PrintInt 4, PrintStr '': '', PrintUInt 1000, PrintStr ''; '',
            PrintInt 5, PrintStr '': '', PrintUInt 1000, PrintStr ''; '',
            PrintInt 6, PrintStr '': '', PrintUInt 1000, PrintStr ''; '',
            PrintInt 7, PrintStr '': '', PrintUInt 1000, PrintStr ''; '',
            PrintInt 8, PrintStr '': '', PrintUInt 1000, PrintStr ''; '',
            PrintStr ''Pause: '', PrintUInt 10000, PrintStr ''; Total = '',
            PrintlnUInt 8000])"
    by (simp add: init_def upt_conv_Cons)
  then show ?thesis
    unfolding whole by simp
qed

text \<open>
  C9. The claim says that a report leaves the Ready Flag clear, the index at -1 and the
  Channel Buffer as it was, and the comments of lines 43 and 44 say that the buffer is
  released for writing and that the decoder reads again only after the next sync gap. The
  sketch breaks it: line 43 clears the Ready Flag before line 44 resets the index, and an
  edge served between the two lines finds the flag clear and the index still 0. From the
  state after reset, a complete frame of eight times 1500 and a gap of 3000 microseconds
  is received and the report runs up to line 43. A pulse of 1200 microseconds served
  before line 44 overwrites entry 0; a sync gap of 3500 microseconds served there
  overwrites entry 8 and sets the Ready Flag again, so that it is set when the report
  ends.
\<close>

theorem C9_edge_between_release_and_reset:
  "map_option channel
     (run [Edge 6000, Edge 3000, Edge 3000, Edge 3000, Edge 3000, Edge 3000, Edge 3000,
           Edge 3000, Edge 3000, Edge 6000] init)
   = Some [1500, 1500, 1500, 1500, 1500, 1500, 1500, 1500, 3000]
   \<and> map_option (\<lambda>s. (channel s, readyToShow s, currentChannel s))
       (run ([Edge 6000, Edge 3000, Edge 3000, Edge 3000, Edge 3000, Edge 3000, Edge 3000,
              Edge 3000, Edge 3000, Edge 6000] @ replicate 64 Main
             @ [Main, Edge 2400, Main]) init)
     = Some ([1200, 1500, 1500, 1500, 1500, 1500, 1500, 1500, 3000], False, - 1)
   \<and> map_option (\<lambda>s. (channel s, readyToShow s, currentChannel s))
       (run ([Edge 6000, Edge 3000, Edge 3000, Edge 3000, Edge 3000, Edge 3000, Edge 3000,
              Edge 3000, Edge 3000, Edge 6000] @ replicate 64 Main
             @ [Main, Edge 7000, Main]) init)
     = Some ([1500, 1500, 1500, 1500, 1500, 1500, 1500, 1500, 3500], True, - 1)"
proof -
  let ?frame = "[Edge 6000, Edge 3000, Edge 3000, Edge 3000, Edge 3000, Edge 3000, Edge 3000,
                 Edge 3000, Edge 3000, Edge 6000]"
  let ?s = "init\<lparr>channel := [1500, 1500, 1500, 1500, 1500, 1500, 1500, 1500, 3000],
                 readyToShow := True, currentChannel := 0\<rparr>"
  have frame: "run ?frame init = Some ?s"
    by (simp add: edge_def read_ppm_def wr_def init_def Let_def)
  have "pc ?s = Line29" "readyToShow ?s"
    by (simp_all add: init_def)
  from report_uninterrupted [OF this] obtain s43
    where report: "run (replicate 64 Main) ?s = Some s43"
      and s43: "channel s43 = [1500, 1500, 1500, 1500, 1500, 1500, 1500, 1500, 3000]"
        "readyToShow s43" "currentChannel s43 = 0" "pc s43 = Line43"
    by (simp add: init_def)
  have pulse: "map_option (\<lambda>s. (channel s, readyToShow s, currentChannel s))
                 (run [Main, Edge 2400, Main] s43)
               = Some ([1200, 1500, 1500, 1500, 1500, 1500, 1500, 1500, 3000], False, - 1)"
    using s43 by (simp add: edge_def read_ppm_def loop_step_def wr_def Let_def)
  have gap: "map_option (\<lambda>s. (channel s, readyToShow s, currentChannel s))
               (run [Main, Edge 7000, Main] s43)
             = Some ([1500, 1500, 1500, 1500, 1500, 1500, 1500, 1500, 3500], True, - 1)"
    using s43 by (simp add: edge_def read_ppm_def loop_step_def wr_def Let_def)
  have "run (?frame @ replicate 64 Main @ [Main, Edge 2400, Main]) init
          = run [Main, Edge 2400, Main] s43"
    using frame report by (simp only: run_append option.case)
  moreover have "run (?frame @ replicate 64 Main @ [Main, Edge 7000, Main]) init
          = run [Main, Edge 7000, Main] s43"
    using frame report by (simp only: run_append option.case)
  ultimately show ?thesis using frame pulse gap by simp
qed

text \<open>
  C10. The claim says that no store or load leaves \<^verbatim>\<open>channel[0..8]\<close>. The sketch
  breaks it: line 80 counts every channel pulse, also those after the eighth, so without
  a sync gap the index climbs to 32767 and the next increment takes it to -32768. That
  index passes both guards (\<open>\<noteq> -1\<close> in line 76, \<open>< 8\<close> in line 77), and line 78 stores
  at \<^verbatim>\<open>channel[-32768]\<close>. From the state after reset, one sync gap followed by 32768
  channel pulses leaves the index at -32768, and one more pulse ends in that fault.
\<close>

theorem C10_store_out_of_bounds:
  "map_option (\<lambda>s. sint (currentChannel s))
     (run (Edge 6000 # replicate 32768 (Edge 3000)) init) = Some (- 32768)
   \<and> run (Edge 6000 # replicate 32769 (Edge 3000)) init = None"
proof -
  let ?p = "Edge 3000"
  let ?s0 = "init\<lparr>currentChannel := 0\<rparr>"
  let ?s8 = "init\<lparr>channel := [1500, 1500, 1500, 1500, 1500, 1500, 1500, 1500, 0],
                  currentChannel := 8\<rparr>"
  let ?s9 = "?s8\<lparr>currentChannel := 32767\<rparr>"
  let ?s10 = "?s8\<lparr>currentChannel := 32768\<rparr>"
  have split: "replicate 32768 ?p = replicate 8 ?p @ replicate 32759 ?p @ [?p]"
  proof -
    have "replicate 32768 ?p = replicate (8 + (32759 + Suc 0)) ?p" by simp
    also have "\<dots> = replicate 8 ?p @ replicate 32759 ?p @ [?p]"
      by (simp only: replicate_add replicate.simps)
    finally show ?thesis .
  qed
  have last: "replicate 32769 ?p = replicate 32768 ?p @ [?p]"
  proof -
    have "replicate 32769 ?p = replicate (32768 + Suc 0) ?p" by simp
    also have "\<dots> = replicate 32768 ?p @ [?p]"
      by (simp only: replicate_add replicate.simps)
    finally show ?thesis .
  qed
  have a: "edge 6000 init = Some ?s0"
    by (simp add: edge_def read_ppm_def init_def Let_def)
  have "replicate 8 ?p = map Edge [3000, 3000, 3000, 3000, 3000, 3000, 3000, 3000]"
    by (simp add: numeral_eq_Suc)
  then have b: "run (replicate 8 ?p) ?s0 = Some ?s8"
    using run_pulses [of ?s0 0 "[3000, 3000, 3000, 3000, 3000, 3000, 3000, 3000]"]
    by (simp add: init_def)
  have c: "run (replicate 32759 ?p) ?s8 = Some ?s9"
    using run_skip [of ?s8 32759 3000] by (simp add: init_def)
  have d: "edge 3000 ?s9 = Some ?s10"
    by (simp add: edge_def read_ppm_def init_def Let_def)
  have e: "edge 3000 ?s10 = None"
    by (simp add: edge_def read_ppm_def init_def Let_def wr_def)
  have wrapped: "run (Edge 6000 # replicate 32768 ?p) init = Some ?s10"
    unfolding split using a b c d by (simp add: run_append)
  then have "run (Edge 6000 # replicate 32769 ?p) init = None"
    unfolding last using e run_append [of "Edge 6000 # replicate 32768 ?p" "[?p]" init]
    by simp
  with wrapped show ?thesis by simp
qed

end
